theory Spec2Isabelle
  imports Main "HOL-Library.Sublist"
begin

section \<open>The Ses component of pulumi-aws-ses\<close>

text \<open>
  The repository holds one class, \<open>Ses\<close> (src/index.ts), whose constructor declares
  thirteen AWS resources with the Pulumi engine. The body of the constructor has no branch
  that throws and no early return; the one failure is in its first statement, the call of
  the base class constructor, which refuses an empty resource name. The constructor is
  therefore a function into \<open>error + Ses\<close>. Each local \<open>const\<close> of the
  constructor is a definition of the same name that takes what the constructor reads:
  the current stack name (the result of \<open>pulumi.getStack()\<close>, engine state and not an
  argument of the constructor), the \<open>SesArgs\<close> and, for values that only the cloud
  provider issues, a record of those values.

  Strings are lists of 8-bit characters. A Pulumi \<open>Output\<close> is modelled by the value
  it resolves to; an output that echoes an input property (\<open>emailUser.name\<close>,
  \<open>stackDomainIdentity.domain\<close>, \<open>stackMailFrom.mailFromDomain\<close>) is read from the
  declared resource, so that the data flow of the source stays visible.
\<close>

subsection \<open>String helpers of the host language\<close>

text \<open>\<open>Array.prototype.join\<close> on an array of strings.\<close>

fun join :: "string \<Rightarrow> string list \<Rightarrow> string" where
  "join sep [] = []"
| "join sep [x] = x"
| "join sep (x # y # ys) = x @ sep @ join sep (y # ys)"

text \<open>A number inside a template literal: its decimal digits.\<close>

fun string_of_nat :: "nat \<Rightarrow> string" where
  "string_of_nat n =
     (if n < 10 then [char_of (48 + n)]
      else string_of_nat (n div 10) @ [char_of (48 + n mod 10)])"

declare string_of_nat.simps [simp del]

text \<open>
  A value inside a template literal that may be \<open>undefined\<close> (an array read past its
  end): \<open>undefined\<close> renders as the nine letters of its name.
\<close>

fun template :: "string option \<Rightarrow> string" where
  "template None = ''undefined''"
| "template (Some s) = s"

text \<open>Reading \<open>xs[i]\<close>: \<open>undefined\<close> out of range, no exception.\<close>

definition index :: "'a list \<Rightarrow> nat \<Rightarrow> 'a option" where
  "index xs i = (if i < length xs then Some (xs ! i) else None)"

subsection \<open>JSON.stringify on the policy document\<close>

datatype json =
    JString string
  | JArray "json list"
  | JObject "(string \<times> json) list"

definition hexDigit :: "nat \<Rightarrow> char" where
  "hexDigit d = (if d < 10 then char_of (48 + d) else char_of (87 + d))"

text \<open>
  \<open>QuoteJSONString\<close>: the quote, the backslash and the control characters are escaped,
  every other character is kept.
\<close>

definition escapeChar :: "char \<Rightarrow> string" where
  "escapeChar c =
     (if c = CHR 0x22 then [CHR 0x5C, CHR 0x22]
      else if c = CHR 0x5C then [CHR 0x5C, CHR 0x5C]
      else if c = CHR 0x08 then [CHR 0x5C, CHR ''b'']
      else if c = CHR 0x0C then [CHR 0x5C, CHR ''f'']
      else if c = CHR 0x0A then [CHR 0x5C, CHR ''n'']
      else if c = CHR 0x0D then [CHR 0x5C, CHR ''r'']
      else if c = CHR 0x09 then [CHR 0x5C, CHR ''t'']
      else if (of_char c :: nat) < 32
        then [CHR 0x5C, CHR ''u'', CHR ''0'', CHR ''0'',
              hexDigit (of_char c div 16), hexDigit (of_char c mod 16)]
      else [c])"

definition QuoteJSONString :: "string \<Rightarrow> string" where
  "QuoteJSONString s = [CHR 0x22] @ concat (map escapeChar s) @ [CHR 0x22]"

text \<open>
  \<open>SerializeJSONProperty\<close> with a non-empty or empty \<open>gap\<close>; \<open>indent\<close> is the
  current indentation. Members keep their insertion order.
\<close>

fun SerializeJSONProperty :: "string \<Rightarrow> string \<Rightarrow> json \<Rightarrow> string"
  and SerializeJSONArray :: "string \<Rightarrow> string \<Rightarrow> json list \<Rightarrow> string list"
  and SerializeJSONObject :: "string \<Rightarrow> string \<Rightarrow> (string \<times> json) list \<Rightarrow> string list"
where
  "SerializeJSONProperty gap indent (JString s) = QuoteJSONString s"
| "SerializeJSONProperty gap indent (JArray xs) =
     (let stepback = indent;
          indent = indent @ gap;
          partial = SerializeJSONArray gap indent xs
      in if partial = [] then ''[]''
         else if gap = [] then ''['' @ join '','' partial @ '']''
         else ''['' @ [CHR 0x0A] @ indent @ join ('','' @ [CHR 0x0A] @ indent) partial
              @ [CHR 0x0A] @ stepback @ '']'')"
| "SerializeJSONProperty gap indent (JObject ms) =
     (let stepback = indent;
          indent = indent @ gap;
          partial = SerializeJSONObject gap indent ms
      in if partial = [] then ''{}''
         else if gap = [] then ''{'' @ join '','' partial @ ''}''
         else ''{'' @ [CHR 0x0A] @ indent @ join ('','' @ [CHR 0x0A] @ indent) partial
              @ [CHR 0x0A] @ stepback @ ''}'')"
| "SerializeJSONArray gap indent [] = []"
| "SerializeJSONArray gap indent (x # xs) =
     SerializeJSONProperty gap indent x # SerializeJSONArray gap indent xs"
| "SerializeJSONObject gap indent [] = []"
| "SerializeJSONObject gap indent ((k, v) # ms) =
     (QuoteJSONString k @ '':'' @ (if gap = [] then [] else '' '')
        @ SerializeJSONProperty gap indent v)
     # SerializeJSONObject gap indent ms"

text \<open>\<open>JSON.stringify(value, null, gap)\<close> with a string \<open>gap\<close> of at most ten characters.\<close>

definition stringify :: "json \<Rightarrow> string \<Rightarrow> string" where
  "stringify v gap = SerializeJSONProperty (take 10 gap) [] v"

text \<open>Reading a member of an object and an element of an array.\<close>

fun member :: "string \<Rightarrow> json \<Rightarrow> json option" where
  "member k (JObject ms) = map_of ms k"
| "member k _ = None"

fun element :: "nat \<Rightarrow> json \<Rightarrow> json option" where
  "element i (JArray xs) = index xs i"
| "element i _ = None"

subsection \<open>Inputs\<close>

type_synonym Tags = "(string \<times> string) list"

text \<open>\<open>interface SesArgs\<close>; \<open>dnsZoneId\<close> is the string the \<open>Input\<close> resolves to.\<close>

record SesArgs =
  description :: string
  baseTags :: Tags
  region :: string
  baseDomain :: string
  dnsZoneId :: string
  adminEmailAddress :: string

text \<open>
  The values that exist only once the provider has created a resource: the verification
  token of the domain identity, the DKIM tokens of the domain, and the identifier and SMTP
  password of the access key.
\<close>

record Issued =
  verificationToken :: string
  dkimTokens :: "string list"
  accessKeyId :: string
  sesSmtpPasswordV4 :: string

subsection \<open>Declared resources\<close>

text \<open>
  One record type for each resource class the constructor instantiates. The first field is
  the first argument of \<open>new\<close> (the name of the resource inside the stack), the others
  are the properties of the second argument.
\<close>

record User =
  user_resource :: string
  user_name :: string
  user_path :: string
  user_tags :: Tags

record UserPolicy =
  policy_resource :: string
  policy_user :: string
  policy :: string

record AccessKey =
  key_resource :: string
  key_user :: string

record DomainIdentity =
  identity_resource :: string
  identity_domain :: string

record MailFrom =
  mailFrom_resource :: string
  mailFrom_domain :: string
  mailFromDomain :: string

record DomainDkim =
  dkim_resource :: string
  dkim_domain :: string

datatype RecordType = TXT | MX | CNAME

record Record =
  resource :: string
  zoneId :: string
  name :: string
  ttl :: nat
  type :: RecordType
  records :: "string list"

text \<open>What the engine is told, in the order of the calls.\<close>

datatype Resource =
    Component string string
  | IamUser User
  | IamUserPolicy UserPolicy
  | IamAccessKey AccessKey
  | SesDomainIdentity DomainIdentity
  | SesMailFrom MailFrom
  | SesDomainDkim DomainDkim
  | Route53Record Record

fun route53Records :: "Resource list \<Rightarrow> Record list" where
  "route53Records [] = []"
| "route53Records (Route53Record r # rs) = r # route53Records rs"
| "route53Records (_ # rs) = route53Records rs"

subsection \<open>The constructor, one definition for each local constant\<close>

definition resourcePrefix :: "string \<Rightarrow> SesArgs \<Rightarrow> string" where
  "resourcePrefix stack args = join ''-'' [baseDomain args, stack]"

definition emailUsername :: "string \<Rightarrow> SesArgs \<Rightarrow> string" where
  "emailUsername stack args = resourcePrefix stack args @ ''-email''"

definition emailUser :: "string \<Rightarrow> SesArgs \<Rightarrow> User" where
  "emailUser stack args =
     \<lparr> user_resource = resourcePrefix stack args @ ''-ses'',
       user_name = emailUsername stack args,
       user_path = ''/system/'',
       user_tags = [(''Environment'', stack)] \<rparr>"

definition allowedFromAddress :: "string \<Rightarrow> SesArgs \<Rightarrow> string" where
  "allowedFromAddress stack args =
     (if stack = ''production'' then ''*@'' @ baseDomain args
      else ''*@'' @ stack @ ''.'' @ baseDomain args)"

text \<open>The object literal handed to \<open>JSON.stringify\<close>, as a function of the pattern.\<close>

definition policyDocument :: "string \<Rightarrow> json" where
  "policyDocument allowed =
     JObject
       [(''Version'', JString ''2012-10-17''),
        (''Statement'', JArray
          [JObject
            [(''Action'', JArray
                [JString ''ses:SendEmail'',
                 JString ''ses:SendTemplatedEmail'',
                 JString ''ses:SendRawEmail'',
                 JString ''ses:SendBulkTemplatedEmail'']),
             (''Effect'', JString ''Allow''),
             (''Resource'', JString ''*''),
             (''Condition'', JObject
                [(''StringLike'', JObject
                    [(''ses:FromAddress'', JString allowed)])])] ])]"

definition emailUserPolicy :: "string \<Rightarrow> SesArgs \<Rightarrow> UserPolicy" where
  "emailUserPolicy stack args =
     \<lparr> policy_resource = resourcePrefix stack args @ ''-ses-policy'',
       policy_user = user_name (emailUser stack args),
       policy = stringify (policyDocument (allowedFromAddress stack args)) ''  '' \<rparr>"

definition emailAccessKey :: "string \<Rightarrow> SesArgs \<Rightarrow> AccessKey" where
  "emailAccessKey stack args =
     \<lparr> key_resource = resourcePrefix stack args @ ''-ses-access-key'',
       key_user = user_name (emailUser stack args) \<rparr>"

definition domain :: "string \<Rightarrow> SesArgs \<Rightarrow> string" where
  "domain stack args =
     (if stack = ''production'' then baseDomain args else stack @ ''.'' @ baseDomain args)"

definition stackDomainIdentity :: "string \<Rightarrow> SesArgs \<Rightarrow> DomainIdentity" where
  "stackDomainIdentity stack args =
     \<lparr> identity_resource = resourcePrefix stack args,
       identity_domain = domain stack args \<rparr>"

definition sesStackVerificationRecord :: "string \<Rightarrow> SesArgs \<Rightarrow> Issued \<Rightarrow> Record" where
  "sesStackVerificationRecord stack args cloud =
     \<lparr> resource = resourcePrefix stack args @ ''-ses-verification'',
       zoneId = dnsZoneId args,
       name = ''_amazonses.'' @ stack,
       ttl = 3600,
       type = TXT,
       records = [verificationToken cloud] \<rparr>"

definition stackMailFrom :: "string \<Rightarrow> SesArgs \<Rightarrow> MailFrom" where
  "stackMailFrom stack args =
     \<lparr> mailFrom_resource = resourcePrefix stack args @ ''-ses-mail-from'',
       mailFrom_domain = identity_domain (stackDomainIdentity stack args),
       mailFromDomain = ''bounce.'' @ identity_domain (stackDomainIdentity stack args) \<rparr>"

definition stackMailFromMXRecord :: "string \<Rightarrow> SesArgs \<Rightarrow> Record" where
  "stackMailFromMXRecord stack args =
     \<lparr> resource = resourcePrefix stack args @ ''-ses-mail-from-mx-record'',
       zoneId = dnsZoneId args,
       name = mailFromDomain (stackMailFrom stack args),
       ttl = 3600,
       type = MX,
       records = [''10 feedback-smtp.'' @ region args @ ''.amazonses.com''] \<rparr>"

definition stackSPFMXRecord :: "string \<Rightarrow> SesArgs \<Rightarrow> Record" where
  "stackSPFMXRecord stack args =
     \<lparr> resource = resourcePrefix stack args @ ''-ses-spf-mx-record'',
       zoneId = dnsZoneId args,
       name = mailFromDomain (stackMailFrom stack args),
       ttl = 3600,
       type = TXT,
       records = [''v=spf1 include:amazonses.com mail -all''] \<rparr>"

definition stackDomainDKIM :: "string \<Rightarrow> SesArgs \<Rightarrow> DomainDkim" where
  "stackDomainDKIM stack args =
     \<lparr> dkim_resource = resourcePrefix stack args @ ''-ses-domain-dkim'',
       dkim_domain = identity_domain (stackDomainIdentity stack args) \<rparr>"

definition dkimRecordCount :: nat where
  "dkimRecordCount = 3"

text \<open>
  The record declared by round \<open>i\<close> of the loop. \<open>dkimTokens[i]\<close> past the end of the
  token list is \<open>undefined\<close>, which both template literals print.
\<close>

definition dkimRecord :: "string \<Rightarrow> SesArgs \<Rightarrow> Issued \<Rightarrow> nat \<Rightarrow> Record" where
  "dkimRecord stack args cloud i =
     (let token = template (index (dkimTokens cloud) i) @ ''.dkim.amazonses.com'';
          name = template (index (dkimTokens cloud) i) @ ''._domainkey.'' @ stack @ ''.''
                 @ baseDomain args
      in \<lparr> resource = resourcePrefix stack args @ ''-dkim-record-'' @ string_of_nat (i + 1)
                        @ ''-of-'' @ string_of_nat dkimRecordCount,
           zoneId = dnsZoneId args,
           name = name,
           ttl = 3600,
           type = CNAME,
           records = [token] \<rparr>)"

text \<open>The \<open>for\<close> loop: \<open>acc\<close> is \<open>stackDKIMRecords\<close> so far.\<close>

function dkimLoop :: "string \<Rightarrow> SesArgs \<Rightarrow> Issued \<Rightarrow> nat \<Rightarrow> Record list \<Rightarrow> Record list" where
  "dkimLoop stack args cloud i acc =
     (if i < dkimRecordCount
      then dkimLoop stack args cloud (i + 1) (acc @ [dkimRecord stack args cloud i])
      else acc)"
  by pat_completeness auto
termination
  by (relation "measure (\<lambda>(stack, args, cloud, i, acc). dkimRecordCount - i)") auto

declare dkimLoop.simps [simp del]

definition stackDKIMRecords :: "string \<Rightarrow> SesArgs \<Rightarrow> Issued \<Rightarrow> Record list" where
  "stackDKIMRecords stack args cloud = dkimLoop stack args cloud 0 []"

definition dmarcRecord :: "string \<Rightarrow> SesArgs \<Rightarrow> Record" where
  "dmarcRecord stack args =
     \<lparr> resource = resourcePrefix stack args @ ''-external-dmarc'',
       zoneId = dnsZoneId args,
       name = ''_dmarc.'' @ domain stack args,
       ttl = 3600,
       type = TXT,
       records = [''v=DMARC1; p=none; rua=mailto:'' @ adminEmailAddress args @ ''; fo=1;''] \<rparr>"

text \<open>
  The component: its private fields, and the resources registered while the constructor
  ran. \<open>cname\<close> is the constructor's \<open>name\<close>; the \<open>super\<close> call registers the
  component itself under the type \<open>codicy:aws-ses\<close>.

  The base class \<open>Resource\<close> of the Pulumi SDK starts with
  \<^verbatim>\<open>if (!name) throw new ResourceError("Missing resource name argument (for URN creation)", ...)\<close>,
  before it registers anything: with an empty \<open>name\<close> the \<open>super\<close> call throws and
  no statement of the constructor body runs. The names of the thirteen AWS resources all
  contain the hyphen of \<open>resourcePrefix\<close>, so none of them is empty and their
  constructors pass that test.
\<close>

datatype error = MissingResourceName

record Ses =
  ses_name :: string
  ses_description :: string
  ses_baseTags :: Tags
  emailUserSmtpPassword :: string
  emailUserId :: string
  declared :: "Resource list"

definition Ses_constructor :: "string \<Rightarrow> string \<Rightarrow> SesArgs \<Rightarrow> Issued \<Rightarrow> error + Ses" where
  "Ses_constructor stack cname args cloud =
     (if cname = [] then Inl MissingResourceName
      else Inr
        \<lparr> ses_name = cname,
          ses_description = description args,
          ses_baseTags = baseTags args,
          emailUserSmtpPassword = sesSmtpPasswordV4 cloud,
          emailUserId = accessKeyId cloud,
          declared =
            [Component ''codicy:aws-ses'' cname,
             IamUser (emailUser stack args),
             IamUserPolicy (emailUserPolicy stack args),
             IamAccessKey (emailAccessKey stack args),
             SesDomainIdentity (stackDomainIdentity stack args),
             Route53Record (sesStackVerificationRecord stack args cloud),
             SesMailFrom (stackMailFrom stack args),
             Route53Record (stackMailFromMXRecord stack args),
             Route53Record (stackSPFMXRecord stack args),
             SesDomainDkim (stackDomainDKIM stack args)]
            @ map Route53Record (stackDKIMRecords stack args cloud)
            @ [Route53Record (dmarcRecord stack args)] \<rparr>)"

definition getEmailUserSmtpPassword :: "Ses \<Rightarrow> string" where
  "getEmailUserSmtpPassword this = emailUserSmtpPassword this"

definition getEmailUserId :: "Ses \<Rightarrow> string" where
  "getEmailUserId this = emailUserId this"


subsection \<open>Observations on what was declared\<close>

fun domainIdentities :: "Resource list \<Rightarrow> DomainIdentity list" where
  "domainIdentities [] = []"
| "domainIdentities (SesDomainIdentity d # rs) = d # domainIdentities rs"
| "domainIdentities (_ # rs) = domainIdentities rs"

fun userPolicies :: "Resource list \<Rightarrow> UserPolicy list" where
  "userPolicies [] = []"
| "userPolicies (IamUserPolicy p # rs) = p # userPolicies rs"
| "userPolicies (_ # rs) = userPolicies rs"

text \<open>The name under which a resource was declared, the first argument of \<open>new\<close>.\<close>

fun resourceName :: "Resource \<Rightarrow> string" where
  "resourceName (Component t n) = n"
| "resourceName (IamUser u) = user_resource u"
| "resourceName (IamUserPolicy p) = policy_resource p"
| "resourceName (IamAccessKey k) = key_resource k"
| "resourceName (SesDomainIdentity d) = identity_resource d"
| "resourceName (SesMailFrom m) = mailFrom_resource m"
| "resourceName (SesDomainDkim d) = dkim_resource d"
| "resourceName (Route53Record r) = resource r"

text \<open>
  The value found in a policy document at
  \<open>Statement[0].Condition.StringLike["ses:FromAddress"]\<close>.
\<close>

definition fromAddressCondition :: "json \<Rightarrow> json option" where
  "fromAddressCondition doc =
     Option.bind (Option.bind (Option.bind (Option.bind (member ''Statement'' doc)
       (element 0)) (member ''Condition'')) (member ''StringLike'')) (member ''ses:FromAddress'')"

text \<open>
  The text that \<open>JSON.stringify\<close> puts before and after the from-address condition of
  the policy; \<open>quoted\<close> puts a string between double quotes.
\<close>

abbreviation quoted :: "string \<Rightarrow> string" where
  "quoted s \<equiv> CHR 0x22 # s @ [CHR 0x22]"

definition policyHead :: string where
  "policyHead =
     ''{\<newline>'' @
     ''  '' @ quoted ''Version'' @ '': '' @ quoted ''2012-10-17'' @ '',\<newline>'' @
     ''  '' @ quoted ''Statement'' @ '': [\<newline>'' @
     ''    {\<newline>'' @
     ''      '' @ quoted ''Action'' @ '': [\<newline>'' @
     ''        '' @ quoted ''ses:SendEmail'' @ '',\<newline>'' @
     ''        '' @ quoted ''ses:SendTemplatedEmail'' @ '',\<newline>'' @
     ''        '' @ quoted ''ses:SendRawEmail'' @ '',\<newline>'' @
     ''        '' @ quoted ''ses:SendBulkTemplatedEmail'' @ ''\<newline>'' @
     ''      ],\<newline>'' @
     ''      '' @ quoted ''Effect'' @ '': '' @ quoted ''Allow'' @ '',\<newline>'' @
     ''      '' @ quoted ''Resource'' @ '': '' @ quoted ''*'' @ '',\<newline>'' @
     ''      '' @ quoted ''Condition'' @ '': {\<newline>'' @
     ''        '' @ quoted ''StringLike'' @ '': {\<newline>'' @
     ''          ''"

definition policyTail :: string where
  "policyTail =
     ''\<newline>'' @
     ''        }\<newline>'' @
     ''      }\<newline>'' @
     ''    }\<newline>'' @
     ''  ]\<newline>'' @
     ''}''"

text \<open>
  The declarations of a construction that passes the \<open>super\<close> call, with the loop
  unrolled.
\<close>

abbreviation declarations :: "string \<Rightarrow> string \<Rightarrow> SesArgs \<Rightarrow> Issued \<Rightarrow> Resource list" where
  "declarations stack cname args cloud \<equiv>
     [Component ''codicy:aws-ses'' cname,
      IamUser (emailUser stack args),
      IamUserPolicy (emailUserPolicy stack args),
      IamAccessKey (emailAccessKey stack args),
      SesDomainIdentity (stackDomainIdentity stack args),
      Route53Record (sesStackVerificationRecord stack args cloud),
      SesMailFrom (stackMailFrom stack args),
      Route53Record (stackMailFromMXRecord stack args),
      Route53Record (stackSPFMXRecord stack args),
      SesDomainDkim (stackDomainDKIM stack args),
      Route53Record (dkimRecord stack args cloud 0),
      Route53Record (dkimRecord stack args cloud 1),
      Route53Record (dkimRecord stack args cloud 2),
      Route53Record (dmarcRecord stack args)]"

text \<open>The inputs of the worked scenarios.\<close>

abbreviation exampleArgs :: SesArgs where
  "exampleArgs \<equiv>
     \<lparr> description = ''mail'', baseTags = [], region = ''us-east-1'',
       baseDomain = ''example.com'', dnsZoneId = ''Z123'',
       adminEmailAddress = ''admin@example.com'' \<rparr>"

abbreviation emptyDomainArgs :: SesArgs where
  "emptyDomainArgs \<equiv>
     \<lparr> description = ''mail'', baseTags = [], region = ''us-east-1'',
       baseDomain = '''', dnsZoneId = ''Z123'',
       adminEmailAddress = ''admin@example.com'' \<rparr>"

abbreviation exampleIssued :: Issued where
  "exampleIssued \<equiv>
     \<lparr> verificationToken = ''vt'', dkimTokens = [''ta'', ''tb'', ''tc''],
       accessKeyId = ''AKIA'', sesSmtpPasswordV4 = ''pw'' \<rparr>"

section \<open>Properties\<close>

subsection \<open>The loop and the list of declarations, unfolded\<close>

lemma stackDKIMRecords_unfold:
  "stackDKIMRecords stack args cloud =
     [dkimRecord stack args cloud 0, dkimRecord stack args cloud 1, dkimRecord stack args cloud 2]"
proof -
  have three: "dkimLoop stack args cloud (Suc (Suc (Suc 0))) acc = acc" for acc
    by (subst dkimLoop.simps) (simp add: dkimRecordCount_def)
  have two: "dkimLoop stack args cloud (Suc (Suc 0)) acc
      = acc @ [dkimRecord stack args cloud 2]" for acc
    by (subst dkimLoop.simps) (simp add: dkimRecordCount_def three numeral_2_eq_2)
  have one: "dkimLoop stack args cloud (Suc 0) acc
      = acc @ [dkimRecord stack args cloud 1, dkimRecord stack args cloud 2]" for acc
    by (subst dkimLoop.simps) (simp add: dkimRecordCount_def two)
  show ?thesis
    unfolding stackDKIMRecords_def
    by (subst dkimLoop.simps) (simp add: dkimRecordCount_def one)
qed

text \<open>An empty component name is refused; any other name gives an instance.\<close>

lemma Ses_constructor_empty_name:
  "Ses_constructor stack [] args cloud = Inl MissingResourceName"
  by (simp add: Ses_constructor_def)

lemma Ses_constructor_instance:
  assumes "cname \<noteq> []"
  obtains this where
    "Ses_constructor stack cname args cloud = Inr this"
    "declared this = declarations stack cname args cloud"
  using assms by (simp add: Ses_constructor_def stackDKIMRecords_unfold)

lemma identity_domain_eq: "identity_domain (stackDomainIdentity stack args) = domain stack args"
  by (simp add: stackDomainIdentity_def)

lemma mailFromDomain_eq:
  "mailFromDomain (stackMailFrom stack args) = ''bounce.'' @ domain stack args"
  by (simp add: stackMailFrom_def stackDomainIdentity_def)

lemma three_elements:
  assumes "length xs = 3"
  obtains a b c where "xs = [a, b, c]"
proof -
  from assms obtain a ys where 1: "xs = a # ys" and "length ys = 2"
    by (cases xs) auto
  then obtain b zs where 2: "ys = b # zs" and "length zs = 1"
    by (cases ys) auto
  then obtain c where "zs = [c]"
    by (cases zs) auto
  with 1 2 have "xs = [a, b, c]" by simp
  then show thesis by (rule that)
qed

text \<open>The send domain determines the stack name, for a fixed base domain.\<close>

lemma domain_inj:
  assumes "domain s1 args = domain s2 args"
  shows "s1 = s2"
proof (cases "s1 = ''production''")
  case True
  show ?thesis
  proof (rule ccontr)
    assume "s1 \<noteq> s2"
    with True assms have "baseDomain args = s2 @ ''.'' @ baseDomain args"
      by (simp add: domain_def split: if_splits)
    then have "length (baseDomain args) = length (s2 @ ''.'' @ baseDomain args)" by simp
    then show False by simp
  qed
next
  case False
  show ?thesis
  proof (cases "s2 = ''production''")
    case True
    with False assms have "s1 @ ''.'' @ baseDomain args = baseDomain args"
      by (simp add: domain_def)
    then have "length (s1 @ ''.'' @ baseDomain args) = length (baseDomain args)" by simp
    then show ?thesis by simp
  next
    case s2: False
    with False assms show ?thesis by (simp add: domain_def)
  qed
qed

subsection \<open>The serialised policy\<close>

lemma QuoteJSONString_literals:
  "QuoteJSONString ''Version'' = quoted ''Version''"
  "QuoteJSONString ''2012-10-17'' = quoted ''2012-10-17''"
  "QuoteJSONString ''Statement'' = quoted ''Statement''"
  "QuoteJSONString ''Action'' = quoted ''Action''"
  "QuoteJSONString ''ses:SendEmail'' = quoted ''ses:SendEmail''"
  "QuoteJSONString ''ses:SendTemplatedEmail'' = quoted ''ses:SendTemplatedEmail''"
  "QuoteJSONString ''ses:SendRawEmail'' = quoted ''ses:SendRawEmail''"
  "QuoteJSONString ''ses:SendBulkTemplatedEmail'' = quoted ''ses:SendBulkTemplatedEmail''"
  "QuoteJSONString ''Effect'' = quoted ''Effect''"
  "QuoteJSONString ''Allow'' = quoted ''Allow''"
  "QuoteJSONString ''Resource'' = quoted ''Resource''"
  "QuoteJSONString ''*'' = quoted ''*''"
  "QuoteJSONString ''Condition'' = quoted ''Condition''"
  "QuoteJSONString ''StringLike'' = quoted ''StringLike''"
  "QuoteJSONString ''ses:FromAddress'' = quoted ''ses:FromAddress''"
  by code_simp+

text \<open>A string without quote, backslash and control character is quoted as it is.\<close>

lemma QuoteJSONString_plain:
  assumes "\<And>c. c \<in> set s \<Longrightarrow> c \<noteq> CHR 0x22 \<and> c \<noteq> CHR 0x5C \<and> 32 \<le> (of_char c :: nat)"
  shows "QuoteJSONString s = quoted s"
proof -
  have "concat (map escapeChar s) = s"
    using assms
  proof (induction s)
    case Nil
    show ?case by simp
  next
    case (Cons c s)
    from Cons.prems [of c] have "escapeChar c = [c]"
      by (auto simp: escapeChar_def)
    moreover from Cons have "concat (map escapeChar s) = s" by simp
    ultimately show ?case by simp
  qed
  then show ?thesis by (simp add: QuoteJSONString_def)
qed

text \<open>The whole text of the policy, for any pattern.\<close>

lemma policy_text:
  "stringify (policyDocument allowed) ''  '' =
     policyHead @ quoted ''ses:FromAddress'' @ '': '' @ QuoteJSONString allowed @ policyTail"
  by (simp add: stringify_def policyDocument_def QuoteJSONString_literals
      policyHead_def policyTail_def)

text \<open>Quoting loses nothing: two strings with the same quoted form are equal.\<close>

lemma hexDigit_inj: "a < 16 \<Longrightarrow> b < 16 \<Longrightarrow> hexDigit a = hexDigit b \<Longrightarrow> a = b"
  by (auto simp: hexDigit_def char_of_eq_iff take_bit_eq_mod split: if_splits)

lemma control_char_eq:
  assumes c: "(of_char c :: nat) < 32" and d: "(of_char d :: nat) < 32"
    and hi: "hexDigit (of_char c div 16) = hexDigit (of_char d div 16)"
    and lo: "hexDigit (of_char c mod 16) = hexDigit (of_char d mod 16)"
  shows "c = d"
proof -
  let ?m = "of_char c :: nat" and ?n = "of_char d :: nat"
  from c d have "?m div 16 < 16" "?n div 16 < 16" by simp_all
  with hi have 1: "?m div 16 = ?n div 16" by (rule hexDigit_inj [rotated 2])
  have "?m mod 16 < 16" "?n mod 16 < 16" by simp_all
  with lo have 2: "?m mod 16 = ?n mod 16" by (rule hexDigit_inj [rotated 2])
  have "?m = 16 * (?m div 16) + ?m mod 16" by simp
  also have "\<dots> = 16 * (?n div 16) + ?n mod 16" by (simp only: 1 2)
  also have "\<dots> = ?n" by simp
  finally have "?m = ?n" .
  then have "char_of ?m = (char_of ?n :: char)" by simp
  then show ?thesis by simp
qed

lemma escapeChar_append_inj:
  "escapeChar c @ xs = escapeChar d @ ys \<Longrightarrow> c = d \<and> xs = ys"
  by (auto simp: escapeChar_def split: if_splits intro: control_char_eq)

lemma escapeChar_not_Nil: "escapeChar c \<noteq> []"
  by (simp add: escapeChar_def)

lemma concat_escapeChar_inj:
  "concat (map escapeChar s) = concat (map escapeChar t) \<Longrightarrow> s = t"
proof (induction s arbitrary: t)
  case Nil
  then show ?case by (cases t) (simp_all add: escapeChar_not_Nil)
next
  case (Cons c s)
  show ?case
  proof (cases t)
    case Nil
    with Cons.prems show ?thesis by (simp add: escapeChar_not_Nil)
  next
    case (Cons d t')
    with Cons.prems
    have "escapeChar c @ concat (map escapeChar s) = escapeChar d @ concat (map escapeChar t')"
      by simp
    then have "c = d" and "concat (map escapeChar s) = concat (map escapeChar t')"
      using escapeChar_append_inj by blast+
    with Cons.IH Cons show ?thesis by simp
  qed
qed

lemma QuoteJSONString_inj: "QuoteJSONString s = QuoteJSONString t \<Longrightarrow> s = t"
  by (simp add: QuoteJSONString_def concat_escapeChar_inj)

lemma policy_text_inj:
  "stringify (policyDocument a) ''  '' = stringify (policyDocument b) ''  '' \<Longrightarrow> a = b"
  by (simp add: policy_text QuoteJSONString_inj)

subsection \<open>Naming by environment\<close>

text \<open>
  C1. Every component instance (the constructor returns one for every non-empty component
  name) has declared one Domain Identity. Its domain is the base domain when the stack is
  named \<open>production\<close>, and the stack name, a dot and the base domain for every other
  stack name.
\<close>

theorem send_domain:
  assumes "cname \<noteq> []"
  shows "\<exists>this. Ses_constructor stack cname args cloud = Inr this \<and>
     domainIdentities (declared this) = [stackDomainIdentity stack args] \<and>
     (stack = ''production'' \<longrightarrow>
        identity_domain (stackDomainIdentity stack args) = baseDomain args) \<and>
     (stack \<noteq> ''production'' \<longrightarrow>
        identity_domain (stackDomainIdentity stack args) = stack @ ''.'' @ baseDomain args)"
proof -
  from assms obtain this where ok: "Ses_constructor stack cname args cloud = Inr this"
    and d: "declared this = declarations stack cname args cloud"
    by (rule Ses_constructor_instance)
  have "domainIdentities (declared this) = [stackDomainIdentity stack args]"
    by (simp add: d)
  with ok show ?thesis
    by (auto simp: identity_domain_eq domain_def)
qed

theorem send_domain_witness:
  "(\<exists>this. Ses_constructor ''production'' ''ses'' exampleArgs exampleIssued = Inr this \<and>
      map identity_domain (domainIdentities (declared this)) = [''example.com'']) \<and>
   (\<exists>this. Ses_constructor ''staging'' ''ses'' exampleArgs exampleIssued = Inr this \<and>
      map identity_domain (domainIdentities (declared this)) = [''staging.example.com''])"
proof -
  have ne: "''ses'' \<noteq> []" by simp
  from send_domain [OF ne, of "''production''" exampleArgs exampleIssued]
    send_domain [OF ne, of "''staging''" exampleArgs exampleIssued]
  show ?thesis by auto
qed

text \<open>
  C2. The pattern is \<open>*@\<close> and the base domain in production, \<open>*@\<close>, the stack name, a
  dot and the base domain otherwise. Every component instance has declared one user policy:
  the serialisation of a document whose \<open>ses:FromAddress\<close> condition holds exactly this
  pattern, and in whose text the key \<open>ses:FromAddress\<close> is followed by this pattern as a
  JSON string.
\<close>

theorem allowed_sender:
  assumes "cname \<noteq> []"
  shows "\<exists>this. Ses_constructor stack cname args cloud = Inr this \<and>
     (stack = ''production'' \<longrightarrow> allowedFromAddress stack args = ''*@'' @ baseDomain args) \<and>
     (stack \<noteq> ''production'' \<longrightarrow>
        allowedFromAddress stack args = ''*@'' @ stack @ ''.'' @ baseDomain args) \<and>
     policy (emailUserPolicy stack args)
       = stringify (policyDocument (allowedFromAddress stack args)) ''  '' \<and>
     policy (emailUserPolicy stack args)
       = policyHead @ quoted ''ses:FromAddress'' @ '': ''
         @ QuoteJSONString (allowedFromAddress stack args) @ policyTail \<and>
     fromAddressCondition (policyDocument (allowedFromAddress stack args))
       = Some (JString (allowedFromAddress stack args)) \<and>
     IamUserPolicy (emailUserPolicy stack args) \<in> set (declared this) \<and>
     userPolicies (declared this) = [emailUserPolicy stack args]"
proof -
  from assms obtain this where ok: "Ses_constructor stack cname args cloud = Inr this"
    and d: "declared this = declarations stack cname args cloud"
    by (rule Ses_constructor_instance)
  have serial: "policy (emailUserPolicy stack args)
     = policyHead @ quoted ''ses:FromAddress'' @ '': ''
       @ QuoteJSONString (allowedFromAddress stack args) @ policyTail"
    by (simp add: emailUserPolicy_def policy_text)
  have rest: "(stack = ''production'' \<longrightarrow>
        allowedFromAddress stack args = ''*@'' @ baseDomain args) \<and>
     (stack \<noteq> ''production'' \<longrightarrow>
        allowedFromAddress stack args = ''*@'' @ stack @ ''.'' @ baseDomain args) \<and>
     policy (emailUserPolicy stack args)
       = stringify (policyDocument (allowedFromAddress stack args)) ''  '' \<and>
     fromAddressCondition (policyDocument (allowedFromAddress stack args))
       = Some (JString (allowedFromAddress stack args))"
    by (simp add: allowedFromAddress_def emailUserPolicy_def fromAddressCondition_def
        policyDocument_def index_def)
  have decl: "IamUserPolicy (emailUserPolicy stack args) \<in> set (declared this) \<and>
     userPolicies (declared this) = [emailUserPolicy stack args]"
    by (simp add: d)
  from ok serial rest decl show ?thesis by blast
qed

theorem allowed_sender_witness:
  "(\<exists>this. Ses_constructor ''production'' ''ses'' exampleArgs exampleIssued = Inr this \<and>
      userPolicies (declared this) = [emailUserPolicy ''production'' exampleArgs] \<and>
      allowedFromAddress ''production'' exampleArgs = ''*@example.com'') \<and>
   (\<exists>this. Ses_constructor ''staging'' ''ses'' exampleArgs exampleIssued = Inr this \<and>
      userPolicies (declared this) = [emailUserPolicy ''staging'' exampleArgs] \<and>
      allowedFromAddress ''staging'' exampleArgs = ''*@staging.example.com'')"
proof -
  have ne: "''ses'' \<noteq> []" by simp
  have production:
    "\<exists>this. Ses_constructor ''production'' ''ses'' exampleArgs exampleIssued = Inr this \<and>
      userPolicies (declared this) = [emailUserPolicy ''production'' exampleArgs] \<and>
      allowedFromAddress ''production'' exampleArgs = ''*@example.com''"
    using allowed_sender [OF ne, of "''production''" exampleArgs exampleIssued]
    apply (elim exE conjE)
    subgoal for this
      apply (rule exI [of _ this])
      apply simp
      done
    done
  have staging:
    "\<exists>this. Ses_constructor ''staging'' ''ses'' exampleArgs exampleIssued = Inr this \<and>
      userPolicies (declared this) = [emailUserPolicy ''staging'' exampleArgs] \<and>
      allowedFromAddress ''staging'' exampleArgs = ''*@staging.example.com''"
    using allowed_sender [OF ne, of "''staging''" exampleArgs exampleIssued]
    apply (elim exE conjE)
    subgoal for this
      apply (rule exI [of _ this])
      apply simp
      done
    done
  from production staging show ?thesis ..
qed

subsection \<open>Where the records get their domain\<close>

text \<open>
  C3 as written asks that every record name carries the domain of the Domain Identity.
  In the stack \<open>production\<close> with base domain \<open>example.com\<close> the identity's domain is
  \<open>example.com\<close>, the verification record is named \<open>_amazonses.production\<close>, which
  does not end in that domain, and the first signing record is named after
  \<open>production.example.com\<close>.
\<close>

theorem record_domains_counterexample:
  "identity_domain (stackDomainIdentity ''production'' exampleArgs) = ''example.com'' \<and>
   name (sesStackVerificationRecord ''production'' exampleArgs exampleIssued)
     = ''_amazonses.production'' \<and>
   \<not> suffix (identity_domain (stackDomainIdentity ''production'' exampleArgs))
        (name (sesStackVerificationRecord ''production'' exampleArgs exampleIssued)) \<and>
   name (dkimRecord ''production'' exampleArgs exampleIssued 0)
     = ''ta._domainkey.production.example.com'' \<and>
   name (dkimRecord ''production'' exampleArgs exampleIssued 0)
     \<noteq> ''ta._domainkey.'' @ identity_domain (stackDomainIdentity ''production'' exampleArgs)"
  by (simp add: stackDomainIdentity_def domain_def sesStackVerificationRecord_def
      dkimRecord_def index_def suffix_to_prefix)

text \<open>
  C3, amended. A component instance has one Domain Identity and seven DNS records. The MX
  and the sender-policy record are named \<open>bounce.\<close> followed by the identity's domain, the
  reporting-policy record \<open>_dmarc.\<close> followed by it; the verification record is named
  \<open>_amazonses.\<close> followed by the stack name alone; and outside production every
  signing record is named by its token, \<open>._domainkey.\<close> and the identity's domain.
\<close>

theorem record_domains:
  assumes "cname \<noteq> []"
  shows "\<exists>this. Ses_constructor stack cname args cloud = Inr this \<and>
     domainIdentities (declared this) = [stackDomainIdentity stack args] \<and>
     route53Records (declared this)
       = [sesStackVerificationRecord stack args cloud,
          stackMailFromMXRecord stack args,
          stackSPFMXRecord stack args,
          dkimRecord stack args cloud 0,
          dkimRecord stack args cloud 1,
          dkimRecord stack args cloud 2,
          dmarcRecord stack args] \<and>
     name (stackMailFromMXRecord stack args)
       = ''bounce.'' @ identity_domain (stackDomainIdentity stack args) \<and>
     name (stackSPFMXRecord stack args)
       = ''bounce.'' @ identity_domain (stackDomainIdentity stack args) \<and>
     name (dmarcRecord stack args)
       = ''_dmarc.'' @ identity_domain (stackDomainIdentity stack args) \<and>
     name (sesStackVerificationRecord stack args cloud) = ''_amazonses.'' @ stack \<and>
     (stack \<noteq> ''production'' \<longrightarrow>
        (\<forall>i. name (dkimRecord stack args cloud i)
           = template (index (dkimTokens cloud) i) @ ''._domainkey.''
             @ identity_domain (stackDomainIdentity stack args)))"
proof -
  from assms obtain this where ok: "Ses_constructor stack cname args cloud = Inr this"
    and d: "declared this = declarations stack cname args cloud"
    by (rule Ses_constructor_instance)
  have decl: "domainIdentities (declared this) = [stackDomainIdentity stack args] \<and>
     route53Records (declared this)
       = [sesStackVerificationRecord stack args cloud,
          stackMailFromMXRecord stack args,
          stackSPFMXRecord stack args,
          dkimRecord stack args cloud 0,
          dkimRecord stack args cloud 1,
          dkimRecord stack args cloud 2,
          dmarcRecord stack args]"
    by (simp add: d)
  have names: "name (stackMailFromMXRecord stack args)
       = ''bounce.'' @ identity_domain (stackDomainIdentity stack args) \<and>
     name (stackSPFMXRecord stack args)
       = ''bounce.'' @ identity_domain (stackDomainIdentity stack args) \<and>
     name (dmarcRecord stack args)
       = ''_dmarc.'' @ identity_domain (stackDomainIdentity stack args) \<and>
     name (sesStackVerificationRecord stack args cloud) = ''_amazonses.'' @ stack \<and>
     (stack \<noteq> ''production'' \<longrightarrow>
        (\<forall>i. name (dkimRecord stack args cloud i)
           = template (index (dkimTokens cloud) i) @ ''._domainkey.''
             @ identity_domain (stackDomainIdentity stack args)))"
    by (simp add: stackMailFromMXRecord_def stackSPFMXRecord_def mailFromDomain_eq
        identity_domain_eq dmarcRecord_def sesStackVerificationRecord_def dkimRecord_def
        domain_def)
  from ok decl names show ?thesis by blast
qed

theorem record_domains_witness:
  "\<exists>this. Ses_constructor ''staging'' ''ses'' exampleArgs exampleIssued = Inr this \<and>
     map identity_domain (domainIdentities (declared this)) = [''staging.example.com''] \<and>
     map name (route53Records (declared this))
       = [''_amazonses.staging'',
          ''bounce.staging.example.com'',
          ''bounce.staging.example.com'',
          ''ta._domainkey.staging.example.com'',
          ''tb._domainkey.staging.example.com'',
          ''tc._domainkey.staging.example.com'',
          ''_dmarc.staging.example.com'']"
proof -
  have ne: "''ses'' \<noteq> []" by simp
  have dom: "identity_domain (stackDomainIdentity ''staging'' exampleArgs)
      = ''staging.example.com''"
    by (simp add: stackDomainIdentity_def domain_def)
  from record_domains [OF ne, of "''staging''" exampleArgs exampleIssued]
  show ?thesis
    apply (elim exE conjE)
    subgoal for this
      apply (rule exI [of _ this])
      apply (simp add: dom index_def)
      done
    done
qed

subsection \<open>Input validation\<close>

text \<open>
  C4 as written asks that an empty base domain makes the constructor fail before it
  declares anything. In the stack \<open>staging\<close>, with the component name \<open>ses\<close> and an
  empty base domain, the constructor does not fail: it returns an instance that has
  registered all fourteen resources, among them a Domain Identity named \<open>-staging\<close> for
  the domain \<open>staging.\<close>.
\<close>

theorem empty_input_counterexample:
  "\<not> isl (Ses_constructor ''staging'' ''ses'' emptyDomainArgs exampleIssued) \<and>
   length (declared (projr (Ses_constructor ''staging'' ''ses'' emptyDomainArgs exampleIssued)))
     = 14 \<and>
   declared (projr (Ses_constructor ''staging'' ''ses'' emptyDomainArgs exampleIssued)) ! 4
     = SesDomainIdentity \<lparr> identity_resource = ''-staging'', identity_domain = ''staging.'' \<rparr>"
  by (simp add: Ses_constructor_def stackDKIMRecords_unfold stackDomainIdentity_def
      resourcePrefix_def domain_def)

text \<open>
  C4, amended. The constructor validates neither the base domain nor the stack name. It
  fails for one input only, an empty component name, in the \<open>super\<close> call and before
  anything is declared. With any other component name it returns an instance, whatever the
  base domain and the stack name are, having registered the component and thirteen AWS
  resources, seven DNS records among them. With an empty base domain the Domain Identity is
  named by a hyphen and the stack name, and its domain is empty in production and the
  stack name followed by a dot otherwise.
\<close>

theorem empty_input_accepted:
  "(cname = [] \<longrightarrow> Ses_constructor stack cname args cloud = Inl MissingResourceName) \<and>
   (cname \<noteq> [] \<longrightarrow>
      (\<exists>this. Ses_constructor stack cname args cloud = Inr this \<and>
         length (declared this) = 14 \<and>
         length (route53Records (declared this)) = 7 \<and>
         length (domainIdentities (declared this)) = 1)) \<and>
   (cname \<noteq> [] \<and> baseDomain args = [] \<longrightarrow>
      (\<exists>this. Ses_constructor stack cname args cloud = Inr this \<and>
         domainIdentities (declared this)
           = [\<lparr> identity_resource = ''-'' @ stack,
                identity_domain = (if stack = ''production'' then [] else stack @ ''.'') \<rparr>]))"
proof (intro conjI impI)
  assume "cname = []"
  then show "Ses_constructor stack cname args cloud = Inl MissingResourceName"
    by (simp add: Ses_constructor_empty_name)
next
  assume "cname \<noteq> []"
  then obtain this where ok: "Ses_constructor stack cname args cloud = Inr this"
    and d: "declared this = declarations stack cname args cloud"
    by (rule Ses_constructor_instance)
  have "length (declared this) = 14 \<and> length (route53Records (declared this)) = 7 \<and>
      length (domainIdentities (declared this)) = 1"
    by (simp add: d)
  with ok show "\<exists>this. Ses_constructor stack cname args cloud = Inr this \<and>
         length (declared this) = 14 \<and>
         length (route53Records (declared this)) = 7 \<and>
         length (domainIdentities (declared this)) = 1"
    by blast
next
  assume a: "cname \<noteq> [] \<and> baseDomain args = []"
  then obtain this where ok: "Ses_constructor stack cname args cloud = Inr this"
    and d: "declared this = declarations stack cname args cloud"
    using Ses_constructor_instance by blast
  from a have "domainIdentities (declared this)
           = [\<lparr> identity_resource = ''-'' @ stack,
                identity_domain = (if stack = ''production'' then [] else stack @ ''.'') \<rparr>]"
    by (simp add: d stackDomainIdentity_def resourcePrefix_def domain_def)
  with ok show "\<exists>this. Ses_constructor stack cname args cloud = Inr this \<and>
         domainIdentities (declared this)
           = [\<lparr> identity_resource = ''-'' @ stack,
                identity_domain = (if stack = ''production'' then [] else stack @ ''.'') \<rparr>]"
    by blast
qed

theorem empty_input_accepted_witness:
  "Ses_constructor ''staging'' '''' emptyDomainArgs exampleIssued = Inl MissingResourceName \<and>
   (\<exists>this. Ses_constructor ''staging'' ''ses'' emptyDomainArgs exampleIssued = Inr this \<and>
      length (declared this) = 14 \<and>
      length (route53Records (declared this)) = 7 \<and>
      length (domainIdentities (declared this)) = 1) \<and>
   (\<exists>this. Ses_constructor ''staging'' ''ses'' emptyDomainArgs exampleIssued = Inr this \<and>
      domainIdentities (declared this)
        = [\<lparr> identity_resource = ''-staging'', identity_domain = ''staging.'' \<rparr>])"
  using empty_input_accepted [of "''''" "''staging''" emptyDomainArgs exampleIssued]
    empty_input_accepted [of "''ses''" "''staging''" emptyDomainArgs exampleIssued]
  by simp

subsection \<open>Signing records\<close>

text \<open>
  C5. The loop declares three CNAME records whatever the length of the token list, and
  they are the only CNAME records of a component instance. When the provider issued three
  tokens, record \<open>i\<close> is named by token \<open>i\<close>, \<open>._domainkey.\<close>, the stack name, a dot
  and the base domain, and its only value is token \<open>i\<close> followed by
  \<open>.dkim.amazonses.com\<close>. When the three tokens are pairwise distinct (a set of three),
  so are the three names and the three values.
\<close>

theorem signing_records:
  assumes "cname \<noteq> []"
  shows "\<exists>this. Ses_constructor stack cname args cloud = Inr this \<and>
     stackDKIMRecords stack args cloud = map (dkimRecord stack args cloud) [0, 1, 2] \<and>
     length (stackDKIMRecords stack args cloud) = 3 \<and>
     filter (\<lambda>r. type r = CNAME) (route53Records (declared this))
       = stackDKIMRecords stack args cloud \<and>
     (length (dkimTokens cloud) = 3 \<longrightarrow>
        (\<forall>i < 3.
           name (stackDKIMRecords stack args cloud ! i)
             = dkimTokens cloud ! i @ ''._domainkey.'' @ stack @ ''.'' @ baseDomain args \<and>
           records (stackDKIMRecords stack args cloud ! i)
             = [dkimTokens cloud ! i @ ''.dkim.amazonses.com''] \<and>
           type (stackDKIMRecords stack args cloud ! i) = CNAME)) \<and>
     (length (dkimTokens cloud) = 3 \<and> distinct (dkimTokens cloud) \<longrightarrow>
        distinct (map name (stackDKIMRecords stack args cloud)) \<and>
        distinct (map records (stackDKIMRecords stack args cloud)))"
proof -
  from assms obtain this where ok: "Ses_constructor stack cname args cloud = Inr this"
    and d: "declared this = declarations stack cname args cloud"
    by (rule Ses_constructor_instance)
  have shape: "stackDKIMRecords stack args cloud = map (dkimRecord stack args cloud) [0, 1, 2]"
    by (simp add: stackDKIMRecords_unfold)
  have only: "filter (\<lambda>r. type r = CNAME) (route53Records (declared this))
     = stackDKIMRecords stack args cloud"
    by (simp add: d stackDKIMRecords_unfold stackMailFromMXRecord_def
        sesStackVerificationRecord_def stackSPFMXRecord_def dkimRecord_def dmarcRecord_def)
  have fields: "name (stackDKIMRecords stack args cloud ! i)
           = dkimTokens cloud ! i @ ''._domainkey.'' @ stack @ ''.'' @ baseDomain args \<and>
         records (stackDKIMRecords stack args cloud ! i)
           = [dkimTokens cloud ! i @ ''.dkim.amazonses.com''] \<and>
         type (stackDKIMRecords stack args cloud ! i) = CNAME"
    if len: "length (dkimTokens cloud) = 3" and i: "i < 3" for i
  proof -
    from i have "i = 0 \<or> i = 1 \<or> i = 2" by arith
    then show ?thesis
      using len by (auto simp: stackDKIMRecords_unfold dkimRecord_def index_def)
  qed
  have dist: "distinct (map name (stackDKIMRecords stack args cloud)) \<and>
      distinct (map records (stackDKIMRecords stack args cloud))"
    if len: "length (dkimTokens cloud) = 3" and dt: "distinct (dkimTokens cloud)"
  proof -
    from len obtain a b c where ts: "dkimTokens cloud = [a, b, c]"
      by (rule three_elements)
    with dt have "a \<noteq> b" "a \<noteq> c" "b \<noteq> c" by auto
    then show ?thesis
      by (simp add: stackDKIMRecords_unfold dkimRecord_def index_def ts)
  qed
  from ok shape only fields dist show ?thesis
    by (intro exI [of _ this]) simp
qed

theorem signing_records_witness:
  "\<exists>this. Ses_constructor ''staging'' ''ses'' exampleArgs exampleIssued = Inr this \<and>
     map name (filter (\<lambda>r. type r = CNAME) (route53Records (declared this)))
       = [''ta._domainkey.staging.example.com'', ''tb._domainkey.staging.example.com'',
          ''tc._domainkey.staging.example.com''] \<and>
     map records (filter (\<lambda>r. type r = CNAME) (route53Records (declared this)))
       = map (\<lambda>v. [v])
           [''ta.dkim.amazonses.com'', ''tb.dkim.amazonses.com'', ''tc.dkim.amazonses.com''] \<and>
     distinct (map name (filter (\<lambda>r. type r = CNAME) (route53Records (declared this)))) \<and>
     distinct (map records (filter (\<lambda>r. type r = CNAME) (route53Records (declared this))))"
proof -
  have ne: "''ses'' \<noteq> []" by simp
  from signing_records [OF ne, of "''staging''" exampleArgs exampleIssued]
  obtain this where all:
    "Ses_constructor ''staging'' ''ses'' exampleArgs exampleIssued = Inr this \<and>
     stackDKIMRecords ''staging'' exampleArgs exampleIssued
       = map (dkimRecord ''staging'' exampleArgs exampleIssued) [0, 1, 2] \<and>
     length (stackDKIMRecords ''staging'' exampleArgs exampleIssued) = 3 \<and>
     filter (\<lambda>r. type r = CNAME) (route53Records (declared this))
       = stackDKIMRecords ''staging'' exampleArgs exampleIssued \<and>
     (length (dkimTokens exampleIssued) = 3 \<longrightarrow>
        (\<forall>i < 3.
           name (stackDKIMRecords ''staging'' exampleArgs exampleIssued ! i)
             = dkimTokens exampleIssued ! i @ ''._domainkey.'' @ ''staging'' @ ''.''
               @ baseDomain exampleArgs \<and>
           records (stackDKIMRecords ''staging'' exampleArgs exampleIssued ! i)
             = [dkimTokens exampleIssued ! i @ ''.dkim.amazonses.com''] \<and>
           type (stackDKIMRecords ''staging'' exampleArgs exampleIssued ! i) = CNAME)) \<and>
     (length (dkimTokens exampleIssued) = 3 \<and> distinct (dkimTokens exampleIssued) \<longrightarrow>
        distinct (map name (stackDKIMRecords ''staging'' exampleArgs exampleIssued)) \<and>
        distinct (map records (stackDKIMRecords ''staging'' exampleArgs exampleIssued)))" ..
  note ok = all [THEN conjunct1]
  note l3 = all [THEN conjunct2, THEN conjunct2, THEN conjunct1]
  note only = all [THEN conjunct2, THEN conjunct2, THEN conjunct2, THEN conjunct1]
  note at = all [THEN conjunct2, THEN conjunct2, THEN conjunct2, THEN conjunct2,
    THEN conjunct1]
  note dd = all [THEN conjunct2, THEN conjunct2, THEN conjunct2, THEN conjunct2,
    THEN conjunct2]
  have len: "length (dkimTokens exampleIssued) = 3" and dt: "distinct (dkimTokens exampleIssued)"
    by simp_all
  from at len have ati: "i < 3 \<Longrightarrow>
      name (stackDKIMRecords ''staging'' exampleArgs exampleIssued ! i)
        = dkimTokens exampleIssued ! i @ ''._domainkey.'' @ ''staging'' @ ''.''
          @ baseDomain exampleArgs \<and>
      records (stackDKIMRecords ''staging'' exampleArgs exampleIssued ! i)
        = [dkimTokens exampleIssued ! i @ ''.dkim.amazonses.com'']" for i
    by simp
  from dd len dt
  have dist: "distinct (map name (stackDKIMRecords ''staging'' exampleArgs exampleIssued)) \<and>
      distinct (map records (stackDKIMRecords ''staging'' exampleArgs exampleIssued))"
    by simp
  obtain x y z where xyz: "stackDKIMRecords ''staging'' exampleArgs exampleIssued = [x, y, z]"
    using l3 by (rule three_elements)
  from ati [of 0] ati [of 1] ati [of 2] dist
  have "map name (stackDKIMRecords ''staging'' exampleArgs exampleIssued)
       = [''ta._domainkey.staging.example.com'', ''tb._domainkey.staging.example.com'',
          ''tc._domainkey.staging.example.com''] \<and>
     map records (stackDKIMRecords ''staging'' exampleArgs exampleIssued)
       = map (\<lambda>v. [v])
           [''ta.dkim.amazonses.com'', ''tb.dkim.amazonses.com'', ''tc.dkim.amazonses.com''] \<and>
     distinct (map name (stackDKIMRecords ''staging'' exampleArgs exampleIssued)) \<and>
     distinct (map records (stackDKIMRecords ''staging'' exampleArgs exampleIssued))"
    by (simp add: xyz)
  with ok show ?thesis
    by (intro exI [of _ this]) (simp add: only)
qed

subsection \<open>Return path, sender policy and reporting policy\<close>

text \<open>
  C6. The MAIL FROM domain is \<open>bounce.\<close> followed by the identity's domain, in every
  stack. A component instance has declared one MX record; its name is that MAIL FROM
  domain and its only value is \<open>10 feedback-smtp.\<close>, the region argument and
  \<open>.amazonses.com\<close>.
\<close>

theorem return_path:
  assumes "cname \<noteq> []"
  shows "\<exists>this. Ses_constructor stack cname args cloud = Inr this \<and>
     mailFromDomain (stackMailFrom stack args)
       = ''bounce.'' @ identity_domain (stackDomainIdentity stack args) \<and>
     SesMailFrom (stackMailFrom stack args) \<in> set (declared this) \<and>
     filter (\<lambda>r. type r = MX) (route53Records (declared this))
       = [stackMailFromMXRecord stack args] \<and>
     name (stackMailFromMXRecord stack args) = mailFromDomain (stackMailFrom stack args) \<and>
     records (stackMailFromMXRecord stack args)
       = [''10 feedback-smtp.'' @ region args @ ''.amazonses.com'']"
proof -
  from assms obtain this where ok: "Ses_constructor stack cname args cloud = Inr this"
    and d: "declared this = declarations stack cname args cloud"
    by (rule Ses_constructor_instance)
  have "mailFromDomain (stackMailFrom stack args)
       = ''bounce.'' @ identity_domain (stackDomainIdentity stack args) \<and>
     SesMailFrom (stackMailFrom stack args) \<in> set (declared this) \<and>
     filter (\<lambda>r. type r = MX) (route53Records (declared this))
       = [stackMailFromMXRecord stack args] \<and>
     name (stackMailFromMXRecord stack args) = mailFromDomain (stackMailFrom stack args) \<and>
     records (stackMailFromMXRecord stack args)
       = [''10 feedback-smtp.'' @ region args @ ''.amazonses.com'']"
    by (simp add: d stackMailFrom_def stackMailFromMXRecord_def
        sesStackVerificationRecord_def stackSPFMXRecord_def dkimRecord_def dmarcRecord_def)
  with ok show ?thesis by (intro exI [of _ this]) simp
qed

theorem return_path_witness:
  "(\<exists>this. Ses_constructor ''production'' ''ses'' exampleArgs exampleIssued = Inr this \<and>
      map name (filter (\<lambda>r. type r = MX) (route53Records (declared this)))
        = [''bounce.example.com''] \<and>
      map records (filter (\<lambda>r. type r = MX) (route53Records (declared this)))
        = map (\<lambda>v. [v]) [''10 feedback-smtp.us-east-1.amazonses.com'']) \<and>
   (\<exists>this. Ses_constructor ''staging'' ''ses'' exampleArgs exampleIssued = Inr this \<and>
      map name (filter (\<lambda>r. type r = MX) (route53Records (declared this)))
        = [''bounce.staging.example.com''])"
proof -
  have ne: "''ses'' \<noteq> []" by simp
  have production:
    "\<exists>this. Ses_constructor ''production'' ''ses'' exampleArgs exampleIssued = Inr this \<and>
      map name (filter (\<lambda>r. type r = MX) (route53Records (declared this)))
        = [''bounce.example.com''] \<and>
      map records (filter (\<lambda>r. type r = MX) (route53Records (declared this)))
        = map (\<lambda>v. [v]) [''10 feedback-smtp.us-east-1.amazonses.com'']"
    using return_path [OF ne, of "''production''" exampleArgs exampleIssued]
    apply (elim exE conjE)
    subgoal for this
      apply (rule exI [of _ this])
      apply (simp add: identity_domain_eq domain_def)
      done
    done
  have staging:
    "\<exists>this. Ses_constructor ''staging'' ''ses'' exampleArgs exampleIssued = Inr this \<and>
      map name (filter (\<lambda>r. type r = MX) (route53Records (declared this)))
        = [''bounce.staging.example.com'']"
    using return_path [OF ne, of "''staging''" exampleArgs exampleIssued]
    apply (elim exE conjE)
    subgoal for this
      apply (rule exI [of _ this])
      apply (simp add: identity_domain_eq domain_def)
      done
    done
  from production staging show ?thesis ..
qed

text \<open>
  C7. A component instance has declared one sender-policy record: it is the only record
  declared under the name suffix \<open>-ses-spf-mx-record\<close> and the only TXT record at the
  MAIL FROM domain. Its name is the domain of the declared MAIL FROM resource, which is
  never the domain of the declared Domain Identity, and its only value is the fixed string
  \<open>v=spf1 include:amazonses.com mail -all\<close>, with the word \<open>mail\<close> and the
  qualifier \<open>-all\<close> in it.
\<close>

theorem sender_policy:
  assumes "cname \<noteq> []"
  shows "\<exists>this. Ses_constructor stack cname args cloud = Inr this \<and>
     Route53Record (stackSPFMXRecord stack args) \<in> set (declared this) \<and>
     filter (\<lambda>r. resource r = resourcePrefix stack args @ ''-ses-spf-mx-record'')
         (route53Records (declared this))
       = [stackSPFMXRecord stack args] \<and>
     filter (\<lambda>r. type r = TXT \<and> name r = mailFromDomain (stackMailFrom stack args))
         (route53Records (declared this))
       = [stackSPFMXRecord stack args] \<and>
     SesMailFrom (stackMailFrom stack args) \<in> set (declared this) \<and>
     domainIdentities (declared this) = [stackDomainIdentity stack args] \<and>
     name (stackSPFMXRecord stack args) = mailFromDomain (stackMailFrom stack args) \<and>
     name (stackSPFMXRecord stack args) \<noteq> identity_domain (stackDomainIdentity stack args) \<and>
     type (stackSPFMXRecord stack args) = TXT \<and>
     records (stackSPFMXRecord stack args) = [''v=spf1 include:amazonses.com mail -all''] \<and>
     records (stackSPFMXRecord stack args)
       = [''v=spf1 include:amazonses.com '' @ ''mail'' @ '' '' @ ''-all'']"
proof -
  from assms obtain this where ok: "Ses_constructor stack cname args cloud = Inr this"
    and d: "declared this = declarations stack cname args cloud"
    by (rule Ses_constructor_instance)
  have bounce: "''bounce.'' @ s \<noteq> s" for s :: string
  proof
    assume "''bounce.'' @ s = s"
    then have "length (''bounce.'' @ s) = length s" by simp
    then show False by simp
  qed
  have decl1: "Route53Record (stackSPFMXRecord stack args) \<in> set (declared this)"
    and decl2: "SesMailFrom (stackMailFrom stack args) \<in> set (declared this)"
    and decl3: "domainIdentities (declared this) = [stackDomainIdentity stack args]"
    by (simp_all add: d)
  have byname: "filter (\<lambda>r. resource r = resourcePrefix stack args @ ''-ses-spf-mx-record'')
         (route53Records (declared this))
       = [stackSPFMXRecord stack args]"
    by (simp add: d stackMailFromMXRecord_def sesStackVerificationRecord_def
        stackSPFMXRecord_def dkimRecord_def dmarcRecord_def)
  have bytype: "filter (\<lambda>r. type r = TXT \<and> name r = mailFromDomain (stackMailFrom stack args))
         (route53Records (declared this))
       = [stackSPFMXRecord stack args]"
    by (simp add: d stackMailFromMXRecord_def sesStackVerificationRecord_def
        stackSPFMXRecord_def dkimRecord_def dmarcRecord_def mailFromDomain_eq)
  have rec1: "name (stackSPFMXRecord stack args) = mailFromDomain (stackMailFrom stack args)"
    and rec2: "name (stackSPFMXRecord stack args)
      \<noteq> identity_domain (stackDomainIdentity stack args)"
    and rec3: "type (stackSPFMXRecord stack args) = TXT"
    and rec4: "records (stackSPFMXRecord stack args)
      = [''v=spf1 include:amazonses.com mail -all'']"
    and rec5: "records (stackSPFMXRecord stack args)
       = [''v=spf1 include:amazonses.com '' @ ''mail'' @ '' '' @ ''-all'']"
    using bounce by (simp_all add: stackSPFMXRecord_def mailFromDomain_eq identity_domain_eq)
  show ?thesis
    by (intro exI [of _ this] conjI;
        fact ok decl1 decl2 decl3 byname bytype rec1 rec2 rec3 rec4 rec5)
qed

theorem sender_policy_witness:
  "\<exists>this. Ses_constructor ''production'' ''ses'' exampleArgs exampleIssued = Inr this \<and>
     map name (filter (\<lambda>r. resource r = ''example.com-production-ses-spf-mx-record'')
       (route53Records (declared this))) = [''bounce.example.com''] \<and>
     map records (filter (\<lambda>r. resource r = ''example.com-production-ses-spf-mx-record'')
       (route53Records (declared this)))
       = map (\<lambda>v. [v]) [''v=spf1 include:amazonses.com mail -all''] \<and>
     map identity_domain (domainIdentities (declared this)) = [''example.com'']"
proof -
  have ne: "''ses'' \<noteq> []" by simp
  from sender_policy [OF ne, of "''production''" exampleArgs exampleIssued]
  show ?thesis
    apply (elim exE conjE)
    subgoal for this
      apply (rule exI [of _ this])
      apply (simp add: resourcePrefix_def mailFromDomain_eq identity_domain_eq domain_def)
      done
    done
qed

text \<open>
  C8. A component instance has declared the reporting-policy record. It is named
  \<open>_dmarc.\<close> followed by the identity's domain. Its only value is
  \<open>v=DMARC1; p=none; rua=mailto:\<close>, the administrative address as it was given, and
  \<open>; fo=1;\<close>, for every administrative address.
\<close>

theorem reporting_policy:
  assumes "cname \<noteq> []"
  shows "\<exists>this. Ses_constructor stack cname args cloud = Inr this \<and>
     name (dmarcRecord stack args)
       = ''_dmarc.'' @ identity_domain (stackDomainIdentity stack args) \<and>
     records (dmarcRecord stack args)
       = [''v=DMARC1; p=none; '' @ ''rua=mailto:'' @ adminEmailAddress args
          @ ''; '' @ ''fo=1'' @ '';''] \<and>
     Route53Record (dmarcRecord stack args) \<in> set (declared this)"
proof -
  from assms obtain this where ok: "Ses_constructor stack cname args cloud = Inr this"
    and d: "declared this = declarations stack cname args cloud"
    by (rule Ses_constructor_instance)
  have "name (dmarcRecord stack args)
       = ''_dmarc.'' @ identity_domain (stackDomainIdentity stack args) \<and>
     records (dmarcRecord stack args)
       = [''v=DMARC1; p=none; '' @ ''rua=mailto:'' @ adminEmailAddress args
          @ ''; '' @ ''fo=1'' @ '';''] \<and>
     Route53Record (dmarcRecord stack args) \<in> set (declared this)"
    by (simp add: d dmarcRecord_def identity_domain_eq)
  with ok show ?thesis by (intro exI [of _ this]) simp
qed

theorem reporting_policy_witness:
  "\<exists>this. Ses_constructor ''production'' ''ses'' exampleArgs exampleIssued = Inr this \<and>
     Route53Record (dmarcRecord ''production'' exampleArgs) \<in> set (declared this) \<and>
     name (dmarcRecord ''production'' exampleArgs) = ''_dmarc.example.com'' \<and>
     records (dmarcRecord ''production'' exampleArgs)
       = [''v=DMARC1; p=none; rua=mailto:admin@example.com; fo=1;'']"
proof -
  have ne: "''ses'' \<noteq> []" by simp
  from reporting_policy [OF ne, of "''production''" exampleArgs exampleIssued]
  show ?thesis
    apply (elim exE conjE)
    subgoal for this
      apply (rule exI [of _ this])
      apply (simp add: identity_domain_eq domain_def)
      done
    done
qed

subsection \<open>The zone of the records\<close>

text \<open>
  C9. A component instance has declared seven DNS records (verification, MX, sender
  policy, three signing records, reporting policy) and the zone of each is the
  \<open>dnsZoneId\<close> argument.
\<close>

theorem shared_zone:
  assumes "cname \<noteq> []"
  shows "\<exists>this. Ses_constructor stack cname args cloud = Inr this \<and>
     length (route53Records (declared this)) = 7 \<and>
     (\<forall>r \<in> set (route53Records (declared this)). zoneId r = dnsZoneId args)"
proof -
  from assms obtain this where ok: "Ses_constructor stack cname args cloud = Inr this"
    and d: "declared this = declarations stack cname args cloud"
    by (rule Ses_constructor_instance)
  have "length (route53Records (declared this)) = 7 \<and>
     (\<forall>r \<in> set (route53Records (declared this)). zoneId r = dnsZoneId args)"
    by (simp add: d stackMailFromMXRecord_def sesStackVerificationRecord_def
        stackSPFMXRecord_def dkimRecord_def dmarcRecord_def)
  with ok show ?thesis by (intro exI [of _ this]) simp
qed

theorem shared_zone_witness:
  "\<exists>this. Ses_constructor ''staging'' ''ses'' exampleArgs exampleIssued = Inr this \<and>
     map zoneId (route53Records (declared this))
       = [''Z123'', ''Z123'', ''Z123'', ''Z123'', ''Z123'', ''Z123'', ''Z123'']"
proof -
  have ne: "''ses'' \<noteq> []" by simp
  from shared_zone [OF ne, of "''staging''" exampleArgs exampleIssued]
  obtain this where all:
    "Ses_constructor ''staging'' ''ses'' exampleArgs exampleIssued = Inr this \<and>
     length (route53Records (declared this)) = 7 \<and>
     (\<forall>r \<in> set (route53Records (declared this)). zoneId r = dnsZoneId exampleArgs)" ..
  let ?rs = "route53Records (declared this)"
  note ok = all [THEN conjunct1]
  note len = all [THEN conjunct2, THEN conjunct1]
  note zone = all [THEN conjunct2, THEN conjunct2]
  from zone have "map zoneId ?rs = map (\<lambda>r. ''Z123'') ?rs"
    by (intro map_cong) simp_all
  also have "\<dots> = replicate (length ?rs) ''Z123''"
    by (simp add: map_replicate_const)
  also have "\<dots> = [''Z123'', ''Z123'', ''Z123'', ''Z123'', ''Z123'', ''Z123'', ''Z123'']"
    unfolding len by (simp add: numeral_eq_Suc)
  finally have "map zoneId ?rs
      = [''Z123'', ''Z123'', ''Z123'', ''Z123'', ''Z123'', ''Z123'', ''Z123'']" .
  with ok show ?thesis by (intro exI [of _ this] conjI)
qed

subsection \<open>The environment is the stack name\<close>

text \<open>
  C10. The environment name is the stack name of the engine, which is no field of
  \<open>SesArgs\<close> and not the constructor's \<open>name\<close>. Take two constructions with the same
  component name, the same arguments and the same issued values, in stacks of different
  names. Both return an instance with fourteen declarations. Every AWS resource of either
  instance is named with the prefix made of the base domain, a hyphen and its own stack
  name, and position by position the two instances differ in the name of every AWS
  resource, in the domain of the Domain Identity, in the text of the user policy (which
  carries the allowed-sender pattern) and in the name of every DNS record.
\<close>

theorem stack_name_decides:
  assumes "cname \<noteq> []" and "stack1 \<noteq> stack2"
  shows "\<exists>this1 this2.
    Ses_constructor stack1 cname args cloud = Inr this1 \<and>
    Ses_constructor stack2 cname args cloud = Inr this2 \<and>
    length (declared this1) = 14 \<and>
    length (declared this2) = 14 \<and>
    list_all (\<lambda>r. prefix (baseDomain args @ ''-'' @ stack1) (resourceName r))
      (tl (declared this1)) \<and>
    list_all (\<lambda>r. prefix (baseDomain args @ ''-'' @ stack2) (resourceName r))
      (tl (declared this2)) \<and>
    list_all2 (\<lambda>r1 r2. resourceName r1 \<noteq> resourceName r2)
      (tl (declared this1)) (tl (declared this2)) \<and>
    length (domainIdentities (declared this1)) = 1 \<and>
    list_all2 (\<lambda>d1 d2. identity_domain d1 \<noteq> identity_domain d2)
      (domainIdentities (declared this1)) (domainIdentities (declared this2)) \<and>
    length (userPolicies (declared this1)) = 1 \<and>
    list_all2 (\<lambda>p1 p2. policy p1 \<noteq> policy p2)
      (userPolicies (declared this1)) (userPolicies (declared this2)) \<and>
    length (route53Records (declared this1)) = 7 \<and>
    list_all2 (\<lambda>r1 r2. name r1 \<noteq> name r2)
      (route53Records (declared this1)) (route53Records (declared this2))"
proof -
  from assms(1) obtain this1 where ok1: "Ses_constructor stack1 cname args cloud = Inr this1"
    and d1: "declared this1 = declarations stack1 cname args cloud"
    by (rule Ses_constructor_instance)
  from assms(1) obtain this2 where ok2: "Ses_constructor stack2 cname args cloud = Inr this2"
    and d2: "declared this2 = declarations stack2 cname args cloud"
    by (rule Ses_constructor_instance)
  from assms(2) have dom: "domain stack1 args \<noteq> domain stack2 args"
    using domain_inj by blast
  have pat: "allowedFromAddress s args = ''*@'' @ domain s args" for s
    by (simp add: allowedFromAddress_def domain_def)
  have len: "length (declared this1) = 14" "length (declared this2) = 14"
    by (simp_all add: d1 d2)
  have pre: "list_all (\<lambda>r. prefix (baseDomain args @ ''-'' @ s) (resourceName r))
      (tl (declarations s cname args cloud))" for s
    by (simp add: resourcePrefix_def emailUser_def emailUserPolicy_def emailAccessKey_def
        stackDomainIdentity_def sesStackVerificationRecord_def stackMailFrom_def
        stackMailFromMXRecord_def stackSPFMXRecord_def stackDomainDKIM_def dkimRecord_def
        dmarcRecord_def)
  have pre1: "list_all (\<lambda>r. prefix (baseDomain args @ ''-'' @ stack1) (resourceName r))
      (tl (declared this1))"
    unfolding d1 by (rule pre)
  have pre2: "list_all (\<lambda>r. prefix (baseDomain args @ ''-'' @ stack2) (resourceName r))
      (tl (declared this2))"
    unfolding d2 by (rule pre)
  have res: "list_all2 (\<lambda>r1 r2. resourceName r1 \<noteq> resourceName r2)
      (tl (declared this1)) (tl (declared this2))"
    using assms(2)
    by (simp add: d1 d2 resourcePrefix_def emailUser_def emailUserPolicy_def
        emailAccessKey_def stackDomainIdentity_def sesStackVerificationRecord_def
        stackMailFrom_def stackMailFromMXRecord_def stackSPFMXRecord_def stackDomainDKIM_def
        dkimRecord_def dmarcRecord_def)
  have ids: "length (domainIdentities (declared this1)) = 1"
    and idd: "list_all2 (\<lambda>d1 d2. identity_domain d1 \<noteq> identity_domain d2)
      (domainIdentities (declared this1)) (domainIdentities (declared this2))"
    using dom by (simp_all add: d1 d2 identity_domain_eq)
  have "policy (emailUserPolicy stack1 args) \<noteq> policy (emailUserPolicy stack2 args)"
  proof
    assume "policy (emailUserPolicy stack1 args) = policy (emailUserPolicy stack2 args)"
    then have "allowedFromAddress stack1 args = allowedFromAddress stack2 args"
      by (simp add: emailUserPolicy_def policy_text_inj)
    with dom show False by (simp add: pat)
  qed
  then have pols: "length (userPolicies (declared this1)) = 1"
    and pold: "list_all2 (\<lambda>p1 p2. policy p1 \<noteq> policy p2)
      (userPolicies (declared this1)) (userPolicies (declared this2))"
    by (simp_all add: d1 d2)
  have recs: "length (route53Records (declared this1)) = 7"
    and recd: "list_all2 (\<lambda>r1 r2. name r1 \<noteq> name r2)
      (route53Records (declared this1)) (route53Records (declared this2))"
    using assms(2) dom
    by (simp_all add: d1 d2 sesStackVerificationRecord_def stackMailFromMXRecord_def
        stackSPFMXRecord_def mailFromDomain_eq dkimRecord_def dmarcRecord_def)
  show ?thesis
    by (intro exI [of _ this1] exI [of _ this2] conjI;
        fact ok1 ok2 len pre1 pre2 res ids idd pols pold recs recd)
qed

theorem stack_name_decides_witness:
  "\<exists>this1 this2.
    Ses_constructor ''staging'' ''ses'' exampleArgs exampleIssued = Inr this1 \<and>
    Ses_constructor ''production'' ''ses'' exampleArgs exampleIssued = Inr this2 \<and>
    list_all2 (\<lambda>r1 r2. resourceName r1 \<noteq> resourceName r2)
      (tl (declared this1)) (tl (declared this2)) \<and>
    list_all2 (\<lambda>d1 d2. identity_domain d1 \<noteq> identity_domain d2)
      (domainIdentities (declared this1)) (domainIdentities (declared this2)) \<and>
    list_all2 (\<lambda>r1 r2. name r1 \<noteq> name r2)
      (route53Records (declared this1)) (route53Records (declared this2)) \<and>
    length (tl (declared this1)) = 13 \<and>
    length (domainIdentities (declared this1)) = 1 \<and>
    length (route53Records (declared this1)) = 7"
proof -
  have ne: "''ses'' \<noteq> []" and st: "''staging'' \<noteq> ''production''" by simp_all
  from stack_name_decides [OF ne st, of exampleArgs exampleIssued]
  show ?thesis
    apply (elim exE conjE)
    subgoal for this1 this2
      apply (rule exI [of _ this1])
      apply (rule exI [of _ this2])
      apply simp
      done
    done
qed

end
